theory Spec2Isabelle
  imports Complex_Main
begin

section \<open>Tensors\<close>

text \<open>
  The transforms of \<^verbatim>\<open>src/transforms.py\<close> work on torch tensors. A tensor is
  modelled as its shape together with its elements in row-major order, which is how
  \<^verbatim>\<open>view\<close> and \<^verbatim>\<open>reshape\<close> see a contiguous tensor: they change the shape and keep
  the elements. Floating-point elements are idealised as reals. The one operation of
  this code that can return an element that is no number is the mean over an empty
  axis, which gives NaN; its result has elements of type \<open>fval\<close>, a real or \<open>NaN\<close>.
  A comparison with NaN is false, so \<open>ge_zero NaN\<close> is false.

  Failures of the source are values: \<open>RuntimeError\<close> is what torch raises,
  \<open>IndexError\<close> is Python indexing an empty shape.
\<close>

datatype error = RuntimeError | IndexError

datatype fval = Fin real | NaN

definition ge_zero :: "fval \<Rightarrow> bool" where
  "ge_zero v = (case v of Fin r \<Rightarrow> 0 \<le> r | NaN \<Rightarrow> False)"

record 'a tensor =
  shape :: "nat list"
  data :: "'a list"

definition wf_tensor :: "'a tensor \<Rightarrow> bool" where
  "wf_tensor t \<longleftrightarrow> length (data t) = prod_list (shape t)"

text \<open>Row-major offset of a multi-index, and the element stored there.\<close>

definition flat_index :: "nat list \<Rightarrow> nat list \<Rightarrow> nat" where
  "flat_index shp idx = foldl (\<lambda>acc (n, i). acc * n + i) 0 (zip shp idx)"

definition tget :: "'a tensor \<Rightarrow> nat list \<Rightarrow> 'a" where
  "tget t idx = data t ! flat_index (shape t) idx"

text \<open>\<^verbatim>\<open>t.view(*shp)\<close>: the element count has to agree.\<close>

definition view :: "'a tensor \<Rightarrow> nat list \<Rightarrow> error + 'a tensor" where
  "view t shp =
     (if prod_list shp = prod_list (shape t) then Inr \<lparr>shape = shp, data = data t\<rparr>
      else Inl RuntimeError)"

text \<open>
  \<^verbatim>\<open>t.view(-1, *rest)\<close> and \<^verbatim>\<open>t.reshape(-1, *rest)\<close>: the leading size is inferred. torch
  refuses when the known sizes multiply to 0 (the inferred size is ambiguous) or do not
  divide the element count.
\<close>

definition view_infer :: "'a tensor \<Rightarrow> nat list \<Rightarrow> error + 'a tensor" where
  "view_infer t rest =
     (let p = prod_list rest; n = prod_list (shape t)
      in if p = 0 \<or> n mod p \<noteq> 0 then Inl RuntimeError
         else Inr \<lparr>shape = (n div p) # rest, data = data t\<rparr>)"

text \<open>\<^verbatim>\<open>torch.view_as_real\<close>: a trailing axis of size 2 holding real and imaginary part.\<close>

definition view_as_real :: "complex tensor \<Rightarrow> real tensor" where
  "view_as_real t =
     \<lparr>shape = shape t @ [2], data = concat (map (\<lambda>z. [Re z, Im z]) (data t))\<rparr>"

text \<open>\<^verbatim>\<open>torch.view_as_complex\<close>: the last axis must have size 2.\<close>

fun pairs :: "real list \<Rightarrow> complex list" where
  "pairs (a # b # xs) = Complex a b # pairs xs"
| "pairs _ = []"

definition view_as_complex :: "real tensor \<Rightarrow> error + complex tensor" where
  "view_as_complex t =
     (if shape t \<noteq> [] \<and> last (shape t) = 2
      then Inr \<lparr>shape = butlast (shape t), data = pairs (data t)\<rparr>
      else Inl RuntimeError)"

text \<open>\<^verbatim>\<open>torch.abs\<close> of a complex tensor: the modulus of each element.\<close>

definition torch_abs :: "complex tensor \<Rightarrow> real tensor" where
  "torch_abs t = \<lparr>shape = shape t, data = map cmod (data t)\<rparr>"

text \<open>
  \<^verbatim>\<open>torch.mean(t, 1, keepdim=True)\<close>: the arithmetic mean along axis 1, which stays
  with size 1. With \<open>outer\<close> the size of axis 0, \<open>c\<close> the size of axis 1 and \<open>inner\<close>
  the number of elements behind them, element \<open>(b, ch, i)\<close> of the input is stored at
  \<open>(b * c + ch) * inner + i\<close>. A tensor of rank below 2 has no axis 1. Over an empty
  axis 1 torch raises nothing: every element of the result is NaN.
\<close>

definition torch_mean_dim1 :: "real tensor \<Rightarrow> error + fval tensor" where
  "torch_mean_dim1 t =
     (case shape t of
        outer # c # rest \<Rightarrow>
          (let inner = prod_list rest
           in Inr \<lparr>shape = outer # 1 # rest,
                   data = concat (map (\<lambda>b. map (\<lambda>i.
                            if c = 0 then NaN
                            else Fin ((\<Sum>ch\<leftarrow>[0..<c]. data t ! ((b * c + ch) * inner + i))
                                        / real c))
                            [0..<inner]) [0..<outer])\<rparr>)
      | _ \<Rightarrow> Inl IndexError)"

text \<open>A tensor of reals among the tensors that may hold NaN.\<close>

definition finite_tensor :: "real tensor \<Rightarrow> fval tensor" where
  "finite_tensor t = \<lparr>shape = shape t, data = map Fin (data t)\<rparr>"

section \<open>Window\<close>

text \<open>
  \<^verbatim>\<open>torch.hann_window(window_length)\<close> with its default \<^verbatim>\<open>periodic=True\<close>: the first
  \<open>window_length\<close> entries of the symmetric Hann window of length \<open>window_length + 1\<close>,
  that is \<open>1/2 - 1/2 * cos (2 * pi * k / window_length)\<close>. A negative length is
  refused, length 0 gives the empty window and length 1 the window \<open>[1]\<close>. The
  library reads the length as a 64-bit integer and refuses lengths from \<open>2^63\<close> on;
  the length is not bounded here.
\<close>

definition hann_window :: "int \<Rightarrow> error + real list" where
  "hann_window window_length =
     (if window_length < 0 then Inl RuntimeError
      else if window_length = 0 then Inr []
      else if window_length = 1 then Inr [1]
      else Inr (map (\<lambda>k. 1 / 2 - 1 / 2 * cos (2 * pi * real k / real_of_int window_length))
                  [0..<nat window_length]))"

section \<open>Short-time Fourier transform\<close>

text \<open>
  \<^verbatim>\<open>pad_mode="reflect"\<close>: \<open>p\<close> samples mirrored at each end, the end sample itself
  not repeated. torch refuses \<open>p\<close> at or above the signal length.
\<close>

definition reflect_pad :: "nat \<Rightarrow> 'a list \<Rightarrow> 'a list" where
  "reflect_pad p xs = rev (take p (tl xs)) @ xs @ take p (tl (rev xs))"

text \<open>One-sided discrete Fourier transform of a real frame: bins \<open>0 .. n div 2\<close>.\<close>

definition rfft :: "real list \<Rightarrow> complex list" where
  "rfft v =
     map (\<lambda>f. \<Sum>k\<leftarrow>[0..<length v].
                 of_real (v ! k) * cis (- (2 * pi * real f * real k / real (length v))))
       [0..<length v div 2 + 1]"

text \<open>
  The frames of one signal: frame \<open>t\<close> is the \<open>n\<close> samples from \<open>t * hop\<close> on,
  multiplied by the window and transformed.
\<close>

definition stft_frames :: "real list \<Rightarrow> nat \<Rightarrow> nat \<Rightarrow> real list \<Rightarrow> complex list list" where
  "stft_frames sig n hop win =
     map (\<lambda>t. rfft (map2 (*) win (take n (drop (t * hop) sig))))
       [0..<1 + (length sig - n) div hop]"

text \<open>
  Modelled from the spec: \<^verbatim>\<open>torch.stft\<close> is a library routine, not under src/; this
  follows steps 2 to 5 of the spec's section 4.2, which restate what the library
  documents, for the arguments the source passes (\<^verbatim>\<open>normalized=False\<close>,
  \<^verbatim>\<open>onesided=True\<close>, \<^verbatim>\<open>pad_mode="reflect"\<close>, \<^verbatim>\<open>return_complex=True\<close>, window length
  \<open>n_fft\<close>). The input is a batch of signals of shape \<open>(batch, len)\<close>; with \<open>center\<close>
  each signal is first reflect-padded by \<open>n_fft div 2\<close> on both sides. The routine
  refuses \<open>n_fft \<le> 0\<close>, a signal shorter than \<open>n_fft\<close> after padding, a padding not
  below the signal length, \<open>hop_length \<le> 0\<close> and a window whose length is not
  \<open>n_fft\<close>. The result has shape \<open>(batch, n_fft div 2 + 1, frames)\<close>.
\<close>

definition stft_2d ::
  "nat \<Rightarrow> nat \<Rightarrow> real list \<Rightarrow> int \<Rightarrow> int \<Rightarrow> real list \<Rightarrow> bool \<Rightarrow> error + complex tensor" where
  "stft_2d batch len0 xs nfft hop win ctr =
     (if nfft \<le> 0 then Inl RuntimeError
      else
        let n = nat nfft; p = (if ctr then n div 2 else 0); len = len0 + 2 * p
        in if ctr \<and> len0 \<le> p then Inl RuntimeError
           else if len < n \<or> hop \<le> 0 \<or> length win \<noteq> n then Inl RuntimeError
           else
             let h = nat hop;
                 rows = map (\<lambda>r. reflect_pad p (take len0 (drop (r * len0) xs))) [0..<batch]
             in Inr \<lparr>shape = [batch, n div 2 + 1, 1 + (len - n) div h],
                     data = concat (map (\<lambda>row.
                              concat (map (\<lambda>f. map (\<lambda>fr. fr ! f) (stft_frames row n h win))
                                        [0..<n div 2 + 1])) rows)\<rparr>)"

definition torch_stft ::
  "real tensor \<Rightarrow> int \<Rightarrow> int \<Rightarrow> real list \<Rightarrow> bool \<Rightarrow> error + complex tensor" where
  "torch_stft input nfft hop win ctr =
     (case shape input of
        [len0] \<Rightarrow>
          (case stft_2d 1 len0 (data input) nfft hop win ctr of
             Inl e \<Rightarrow> Inl e
           | Inr y \<Rightarrow> Inr (y\<lparr>shape := tl (shape y)\<rparr>))
      | [batch, len0] \<Rightarrow> stft_2d batch len0 (data input) nfft hop win ctr
      | _ \<Rightarrow> Inl RuntimeError)"

section \<open>The transforms of \<^verbatim>\<open>src/transforms.py\<close>\<close>

text \<open>
  \<^verbatim>\<open>TorchSTFT\<close> holds the window and the configuration. \<^verbatim>\<open>TorchISTFT\<close> has the same
  four attributes and \<^verbatim>\<open>sample_rate\<close> besides, so it is the record extended by that
  field. The functions below take any extension of \<open>TorchSTFT\<close>, whatever else the
  instance carries.
\<close>

record TorchSTFT =
  n_fft :: int
  n_hop :: int
  center :: bool
  window :: "real list"

record TorchISTFT = TorchSTFT +
  sample_rate :: real

record ComplexNorm =
  mono :: bool

record AudioEncoder =
  stft :: TorchSTFT
  complex_norm :: ComplexNorm

text \<open>
  \<^verbatim>\<open>__init__\<close> of both transforms: without a window the Hann window of length
  \<open>n_fft\<close> is built, otherwise the given one is kept; the other arguments are stored
  as they come.
\<close>

definition TorchSTFT_init :: "int \<Rightarrow> int \<Rightarrow> bool \<Rightarrow> real list option \<Rightarrow> error + TorchSTFT" where
  "TorchSTFT_init nfft nhop ctr win =
     (case win of
        None \<Rightarrow>
          (case hann_window nfft of
             Inl e \<Rightarrow> Inl e
           | Inr w \<Rightarrow> Inr \<lparr>n_fft = nfft, n_hop = nhop, center = ctr, window = w\<rparr>)
      | Some w \<Rightarrow> Inr \<lparr>n_fft = nfft, n_hop = nhop, center = ctr, window = w\<rparr>)"

definition TorchISTFT_init ::
  "int \<Rightarrow> int \<Rightarrow> bool \<Rightarrow> real \<Rightarrow> real list option \<Rightarrow> error + TorchISTFT" where
  "TorchISTFT_init nfft nhop ctr rate win =
     (case win of
        None \<Rightarrow>
          (case hann_window nfft of
             Inl e \<Rightarrow> Inl e
           | Inr w \<Rightarrow>
               Inr \<lparr>n_fft = nfft, n_hop = nhop, center = ctr, window = w, sample_rate = rate\<rparr>)
      | Some w \<Rightarrow>
          Inr \<lparr>n_fft = nfft, n_hop = nhop, center = ctr, window = w, sample_rate = rate\<rparr>)"

text \<open>
  \<^verbatim>\<open>make_filterbanks\<close>: one Hann window, handed to the encoder and to the decoder; the
  decoder's \<^verbatim>\<open>sample_rate\<close> is left at its default 44100.
\<close>

definition make_filterbanks :: "int \<Rightarrow> int \<Rightarrow> bool \<Rightarrow> error + TorchSTFT \<times> TorchISTFT" where
  "make_filterbanks nfft nhop ctr =
     (case hann_window nfft of
        Inl e \<Rightarrow> Inl e
      | Inr w \<Rightarrow>
          (case TorchSTFT_init nfft nhop ctr (Some w) of
             Inl e \<Rightarrow> Inl e
           | Inr encoder \<Rightarrow>
               (case TorchISTFT_init nfft nhop ctr 44100 (Some w) of
                  Inl e \<Rightarrow> Inl e
                | Inr decoder \<Rightarrow> Inr (encoder, decoder))))"

text \<open>
  \<^verbatim>\<open>TorchSTFT.forward\<close>: \<^verbatim>\<open>shape[-1]\<close> needs a tensor of rank 1 at least; the leading
  axes are packed into one, the batch is transformed, real and imaginary parts are
  laid out on a last axis, and the leading axes are restored in front of the last
  three axes of the transform.
\<close>

definition TorchSTFT_forward :: "'z TorchSTFT_scheme \<Rightarrow> real tensor \<Rightarrow> error + real tensor" where
  "TorchSTFT_forward self x =
     (if shape x = [] then Inl IndexError
      else
        case view_infer x [last (shape x)] of
          Inl e \<Rightarrow> Inl e
        | Inr x2 \<Rightarrow>
            (case torch_stft x2 (n_fft self) (n_hop self) (window self) (center self) of
               Inl e \<Rightarrow> Inl e
             | Inr complex_stft \<Rightarrow>
                 (let stft_f = view_as_real complex_stft
                  in view stft_f
                       (butlast (shape x) @ drop (length (shape stft_f) - 3) (shape stft_f)))))"

text \<open>
  \<^verbatim>\<open>TorchISTFT.forward\<close>. \<^verbatim>\<open>torch.istft\<close> is a library routine; it is the parameter
  \<open>istft\<close>, called with the arguments the source gives it: the complex input, \<open>n_fft\<close>,
  the hop, the window, \<open>center\<close>, \<^verbatim>\<open>normalized=False\<close>, \<^verbatim>\<open>onesided=True\<close> and the
  length. \<^verbatim>\<open>shape[-3]\<close> needs rank 3 at least.
\<close>

type_synonym torch_istft =
  "complex tensor \<Rightarrow> int \<Rightarrow> int \<Rightarrow> real list \<Rightarrow> bool \<Rightarrow> bool \<Rightarrow> bool \<Rightarrow> int option
     \<Rightarrow> error + real tensor"

definition TorchISTFT_forward ::
  "torch_istft \<Rightarrow> 'z TorchSTFT_scheme \<Rightarrow> real tensor \<Rightarrow> int option \<Rightarrow> error + real tensor" where
  "TorchISTFT_forward istft self X len =
     (if length (shape X) < 3 then Inl IndexError
      else
        case view_infer X (drop (length (shape X) - 3) (shape X)) of
          Inl e \<Rightarrow> Inl e
        | Inr X4 \<Rightarrow>
            (case view_as_complex X4 of
               Inl e \<Rightarrow> Inl e
             | Inr Xc \<Rightarrow>
                 (case istft Xc (n_fft self) (n_hop self) (window self) (center self)
                         False True len of
                    Inl e \<Rightarrow> Inl e
                  | Inr y \<Rightarrow>
                      view y (take (length (shape X) - 3) (shape X)
                              @ drop (length (shape y) - 1) (shape y)))))"

text \<open>
  \<^verbatim>\<open>ComplexNorm.forward\<close>: the magnitude of every complex element and, with \<open>mono\<close>,
  the mean of the magnitudes along axis 1.
\<close>

definition ComplexNorm_forward :: "ComplexNorm \<Rightarrow> real tensor \<Rightarrow> error + fval tensor" where
  "ComplexNorm_forward self spec =
     (case view_as_complex spec of
        Inl e \<Rightarrow> Inl e
      | Inr c \<Rightarrow>
          (let spec1 = torch_abs c
           in if mono self then torch_mean_dim1 spec1 else Inr (finite_tensor spec1)))"

text \<open>
  \<^verbatim>\<open>AudioEncoder\<close>: an encoder built from \<open>n_fft\<close> and \<open>n_hop\<close> alone (so with
  \<^verbatim>\<open>center=False\<close> and the default window) and a \<^verbatim>\<open>ComplexNorm\<close> whose \<open>mono\<close> is
  \<^verbatim>\<open>num_channels == 1\<close>; \<^verbatim>\<open>sample_rate\<close> is accepted and not used.
\<close>

definition AudioEncoder_init :: "int \<Rightarrow> int \<Rightarrow> real \<Rightarrow> int \<Rightarrow> error + AudioEncoder" where
  "AudioEncoder_init nfft nhop rate num_channels =
     (case TorchSTFT_init nfft nhop False None of
        Inl e \<Rightarrow> Inl e
      | Inr s \<Rightarrow> Inr \<lparr>stft = s, complex_norm = \<lparr>mono = (num_channels = 1)\<rparr>\<rparr>)"

definition AudioEncoder_forward :: "AudioEncoder \<Rightarrow> real tensor \<Rightarrow> error + fval tensor" where
  "AudioEncoder_forward self x =
     (case TorchSTFT_forward (stft self) x of
        Inl e \<Rightarrow> Inl e
      | Inr X \<Rightarrow> ComplexNorm_forward (complex_norm self) X)"

section \<open>The default window\<close>

lemma cos_pi_3_half: "cos (pi * 3 / 2) = 0"
  using cos_3over2_pi by (simp add: mult.commute)

lemma hann_window_4: "hann_window 4 = Inr [0, 1 / 2, 1, 1 / 2]"
  by (simp add: hann_window_def upt_conv_Cons cos_pi_3_half)

lemma hann_cos_mirror:
  assumes "0 < k" "k < nat n"
  shows "cos (2 * pi * real (nat n - k) / real_of_int n) = cos (2 * pi * real k / real_of_int n)"
proof -
  have n: "0 < n" using assms by simp
  have "real (nat n - k) = real_of_int n - real k" using assms by (simp add: of_nat_diff)
  then have "2 * pi * real (nat n - k) / real_of_int n = 2 * pi - 2 * pi * real k / real_of_int n"
    using n by (simp add: field_simps)
  then show ?thesis by (simp add: cos_diff)
qed

text \<open>
  C4, as the spec states it, fails: the window built for \<open>n_fft = 4\<close> is
  \<open>[0, 1/2, 1, 1/2]\<close>, which is not equal to its reverse and whose entry 3 is not
  \<open>0.5 * (1 - cos (2 * pi * 3 / (4 - 1))) = 0\<close>.
\<close>

theorem hann_window_not_symmetric_formula:
  "hann_window 4 = Inr [0, 1 / 2, 1, 1 / 2] \<and>
   rev [0, 1 / 2, 1, 1 / 2 :: real] \<noteq> [0, 1 / 2, 1, 1 / 2] \<and>
   [0, 1 / 2, 1, 1 / 2 :: real] ! 3 \<noteq> 1 / 2 * (1 - cos (2 * pi * 3 / (4 - 1)))"
  by (simp add: hann_window_4)

text \<open>
  C4, amended: for every \<open>n_fft \<ge> 0\<close> the default window is a real array of length
  \<open>n_fft\<close> with non-negative entries; for \<open>n_fft \<ge> 2\<close> its entries are
  \<open>w[k] = 0.5 * (1 - cos (2 * pi * k / n_fft))\<close> (the periodic Hann window, with
  \<open>n_fft\<close> and not \<open>n_fft - 1\<close> in the denominator); it is symmetric about index
  \<open>n_fft / 2\<close>, that is \<open>w[k] = w[n_fft - k]\<close> for \<open>0 < k < n_fft\<close>.
\<close>

theorem hann_window_periodic:
  assumes "0 \<le> n"
  shows "\<exists>w. hann_window n = Inr w \<and> length w = nat n \<and> (\<forall>k<nat n. 0 \<le> w ! k) \<and>
     (2 \<le> n \<longrightarrow> (\<forall>k<nat n. w ! k = 1 / 2 * (1 - cos (2 * pi * real k / real_of_int n)))) \<and>
     (\<forall>k. 0 < k \<and> k < nat n \<longrightarrow> w ! k = w ! (nat n - k))"
proof (cases "n = 0 \<or> n = 1")
  case True
  then show ?thesis by (auto simp: hann_window_def)
next
  case False
  with assms have n: "2 \<le> n" by simp
  let ?w = "map (\<lambda>k. 1 / 2 - 1 / 2 * cos (2 * pi * real k / real_of_int n)) [0..<nat n]"
  have h: "hann_window n = Inr ?w" using n by (simp add: hann_window_def)
  have nonneg: "\<forall>k<nat n. 0 \<le> ?w ! k"
  proof (intro allI impI)
    fix k assume "k < nat n"
    moreover have "cos (2 * pi * real k / real_of_int n) \<le> 1" by (rule cos_le_one)
    ultimately show "0 \<le> ?w ! k" by simp
  qed
  have formula: "\<forall>k<nat n. ?w ! k = 1 / 2 * (1 - cos (2 * pi * real k / real_of_int n))"
    by (simp add: algebra_simps)
  have sym: "\<forall>k. 0 < k \<and> k < nat n \<longrightarrow> ?w ! k = ?w ! (nat n - k)"
  proof (intro allI impI)
    fix k assume k: "0 < k \<and> k < nat n"
    then have "nat n - k < nat n" by linarith
    then show "?w ! k = ?w ! (nat n - k)"
      using k hann_cos_mirror [of k n] by (simp del: of_nat_diff)
  qed
  show ?thesis using h nonneg formula sym by simp
qed

theorem hann_window_periodic_witness:
  "(0::int) \<le> 4 \<and> (\<exists>w. hann_window 4 = Inr w \<and> length w = 4 \<and> (\<forall>k<4. 0 \<le> w ! k) \<and>
     (\<forall>k<4. w ! k = 1 / 2 * (1 - cos (2 * pi * real k / 4))) \<and>
     (\<forall>k. 0 < k \<and> k < 4 \<longrightarrow> w ! k = w ! (4 - k)))"
  using hann_window_periodic [of 4] by simp

section \<open>Construction\<close>

lemma stft_2d_accepts:
  "stft_2d b l xs nfft hop w ctr = Inr y \<Longrightarrow> 0 < nfft \<and> length w = nat nfft"
  by (auto simp: stft_2d_def Let_def split: if_splits)

lemma torch_stft_accepts:
  "torch_stft t nfft hop w ctr = Inr y \<Longrightarrow> 0 < nfft \<and> length w = nat nfft"
  by (auto simp: torch_stft_def split: list.splits sum.splits dest: stft_2d_accepts)

lemma TorchSTFT_forward_accepts:
  "TorchSTFT_forward self x = Inr y \<Longrightarrow>
     0 < n_fft self \<and> length (window self) = nat (n_fft self)"
  by (auto simp: TorchSTFT_forward_def split: if_splits sum.splits dest: torch_stft_accepts)

lemma TorchSTFT_forward_rejects:
  assumes "n_fft self \<le> 0 \<or> length (window self) \<noteq> nat (n_fft self)"
  shows "isl (TorchSTFT_forward self x)"
proof (cases "TorchSTFT_forward self x")
  case (Inl e)
  then show ?thesis by simp
next
  case (Inr y)
  with assms show ?thesis by (auto dest: TorchSTFT_forward_accepts)
qed

lemma make_filterbanks_4_2:
  "make_filterbanks 4 2 True =
     Inr (\<lparr>n_fft = 4, n_hop = 2, center = True, window = [0, 1 / 2, 1, 1 / 2]\<rparr>,
          \<lparr>n_fft = 4, n_hop = 2, center = True, window = [0, 1 / 2, 1, 1 / 2],
             sample_rate = 44100\<rparr>)"
  by (simp add: make_filterbanks_def TorchSTFT_init_def TorchISTFT_init_def hann_window_4)

text \<open>
  C3, as the spec states it, fails: an encoder and a decoder with \<open>n_hop = 8 > n_fft = 4\<close>
  are constructed without error, and so is an encoder with \<open>n_fft = 0\<close> and a window
  of length 2.
\<close>

theorem init_accepts_bad_configuration:
  "TorchSTFT_init 4 8 False (Some [0, 1 / 2, 1, 1 / 2])
     = Inr \<lparr>n_fft = 4, n_hop = 8, center = False, window = [0, 1 / 2, 1, 1 / 2]\<rparr> \<and>
   TorchISTFT_init 4 8 False 44100 (Some [0, 1 / 2, 1, 1 / 2])
     = Inr \<lparr>n_fft = 4, n_hop = 8, center = False, window = [0, 1 / 2, 1, 1 / 2],
            sample_rate = 44100\<rparr> \<and>
   TorchSTFT_init 0 1 False (Some [1, 1])
     = Inr \<lparr>n_fft = 0, n_hop = 1, center = False, window = [1, 1]\<rparr>"
  by (simp add: TorchSTFT_init_def TorchISTFT_init_def)

text \<open>
  C3, amended: constructing a ForwardTransform or an InverseTransform with a supplied
  window raises nothing, whatever \<open>n_fft\<close>, \<open>n_hop\<close> and the length of the window
  are (so also with \<open>n_hop > n_fft\<close>, with \<open>n_fft \<le> 0\<close> and with a window whose
  length differs from \<open>n_fft\<close>): the arguments are stored as given. The failure is
  deferred to call time: a ForwardTransform with \<open>n_fft \<le> 0\<close> or with a window
  whose length differs from \<open>n_fft\<close> fails when it is called, on every input.
\<close>

theorem init_validates_nothing:
  "TorchSTFT_init nfft nhop ctr (Some w)
     = Inr \<lparr>n_fft = nfft, n_hop = nhop, center = ctr, window = w\<rparr> \<and>
   TorchISTFT_init nfft nhop ctr rate (Some w)
     = Inr \<lparr>n_fft = nfft, n_hop = nhop, center = ctr, window = w, sample_rate = rate\<rparr> \<and>
   (nfft \<le> 0 \<or> length w \<noteq> nat nfft \<longrightarrow>
      isl (TorchSTFT_forward \<lparr>n_fft = nfft, n_hop = nhop, center = ctr, window = w\<rparr> x))"
  using TorchSTFT_forward_rejects
          [of "\<lparr>n_fft = nfft, n_hop = nhop, center = ctr, window = w\<rparr>" x]
  by (simp add: TorchSTFT_init_def TorchISTFT_init_def)

theorem init_validates_nothing_witness:
  "TorchSTFT_init 0 1 False (Some [1, 1])
     = Inr \<lparr>n_fft = 0, n_hop = 1, center = False, window = [1, 1]\<rparr> \<and>
   ((0::int) \<le> 0 \<or> length [1, 1 :: real] \<noteq> nat 0) \<and>
   isl (TorchSTFT_forward \<lparr>n_fft = 0, n_hop = 1, center = False, window = [1, 1]\<rparr>
          \<lparr>shape = [1, 1, 4], data = [1, 2, 3, 4]\<rparr>)"
  using init_validates_nothing
          [of 0 1 False "[1, 1]" 0 "\<lparr>shape = [1, 1, 4], data = [1, 2, 3, 4]\<rparr>"]
  by simp

text \<open>
  C7: for every \<open>(n_fft, n_hop, center)\<close> with which \<^verbatim>\<open>make_filterbanks\<close> returns (it
  does for every \<open>n_fft \<ge> 0\<close>), the encoder and the decoder hold the same window,
  element for element: the one Hann window built for \<open>n_fft\<close>; they also hold the
  same \<open>n_fft\<close>, \<open>n_hop\<close> and \<open>center\<close>.
\<close>

theorem make_filterbanks_shared_window:
  "(0 \<le> nfft \<longrightarrow> (\<exists>enc dec. make_filterbanks nfft nhop ctr = Inr (enc, dec))) \<and>
   (\<forall>enc dec. make_filterbanks nfft nhop ctr = Inr (enc, dec) \<longrightarrow>
        window enc = window dec \<and> hann_window nfft = Inr (window enc) \<and>
        n_fft enc = nfft \<and> n_fft dec = nfft \<and> n_hop enc = nhop \<and> n_hop dec = nhop \<and>
        center enc = ctr \<and> center dec = ctr)"
  by (auto simp: make_filterbanks_def TorchSTFT_init_def TorchISTFT_init_def hann_window_def
           split: sum.splits)

theorem make_filterbanks_shared_window_witness:
  "(0::int) \<le> 4 \<and>
   make_filterbanks 4 2 True =
     Inr (\<lparr>n_fft = 4, n_hop = 2, center = True, window = [0, 1 / 2, 1, 1 / 2]\<rparr>,
          \<lparr>n_fft = 4, n_hop = 2, center = True, window = [0, 1 / 2, 1, 1 / 2],
             sample_rate = 44100\<rparr>) \<and>
   window \<lparr>n_fft = 4, n_hop = 2, center = True, window = [0, 1 / 2, 1, 1 / 2 :: real]\<rparr>
   = window \<lparr>n_fft = 4, n_hop = 2, center = True, window = [0, 1 / 2, 1, 1 / 2],
               sample_rate = 44100 :: real\<rparr>"
  using make_filterbanks_shared_window [of 4 2 True] make_filterbanks_4_2 by simp

section \<open>Composition and unused arguments\<close>

text \<open>
  C9: an AnalysisFrontend constructed from \<open>(n_fft, n_hop, sample_rate,
  channel_count)\<close> holds the ForwardTransform built from \<open>n_fft\<close> and \<open>n_hop\<close>
  (defaults otherwise) and a SpectralMagnitude whose \<open>mono\<close> flag is set if and only
  if the channel count is 1; its output on \<open>x\<close> is SpectralMagnitude applied to
  ForwardTransform of \<open>x\<close>, a failure of the first being the failure of the whole.
\<close>

theorem AudioEncoder_forward_composes:
  "AudioEncoder_init nfft nhop rate nc = Inr enc \<Longrightarrow>
   mono (complex_norm enc) = (nc = 1) \<and>
   TorchSTFT_init nfft nhop False None = Inr (stft enc) \<and>
   AudioEncoder_forward enc x =
     (case TorchSTFT_forward (stft enc) x of
        Inl e \<Rightarrow> Inl e
      | Inr X \<Rightarrow> ComplexNorm_forward \<lparr>mono = (nc = 1)\<rparr> X)"
  by (auto simp: AudioEncoder_init_def AudioEncoder_forward_def split: sum.splits)

theorem AudioEncoder_forward_composes_witness:
  "AudioEncoder_init 4 2 44100 1
     = Inr \<lparr>stft = \<lparr>n_fft = 4, n_hop = 2, center = False, window = [0, 1 / 2, 1, 1 / 2]\<rparr>,
            complex_norm = \<lparr>mono = True\<rparr>\<rparr> \<and>
   AudioEncoder_forward
       \<lparr>stft = \<lparr>n_fft = 4, n_hop = 2, center = False, window = [0, 1 / 2, 1, 1 / 2]\<rparr>,
          complex_norm = \<lparr>mono = True\<rparr>\<rparr>
       \<lparr>shape = [1, 1, 4], data = [1, 2, 3, 4]\<rparr> =
     (case TorchSTFT_forward
             \<lparr>n_fft = 4, n_hop = 2, center = False, window = [0, 1 / 2, 1, 1 / 2]\<rparr>
             \<lparr>shape = [1, 1, 4], data = [1, 2, 3, 4]\<rparr> of
        Inl e \<Rightarrow> Inl e
      | Inr X \<Rightarrow> ComplexNorm_forward \<lparr>mono = True\<rparr> X)"
  using AudioEncoder_forward_composes
          [of 4 2 44100 1
              "\<lparr>stft = \<lparr>n_fft = 4, n_hop = 2, center = False, window = [0, 1 / 2, 1, 1 / 2]\<rparr>,
                 complex_norm = \<lparr>mono = True\<rparr>\<rparr>"
              "\<lparr>shape = [1, 1, 4], data = [1, 2, 3, 4]\<rparr>"]
  by (simp add: AudioEncoder_init_def TorchSTFT_init_def hann_window_4 cong: sum.case_cong)

text \<open>
  C10: \<^verbatim>\<open>sample_rate\<close> has no effect on any output. Two AnalysisFrontends constructed
  with different sample rates and otherwise identical arguments are the same instance
  and give the same output on every input; two InverseTransforms constructed with
  different sample rates and otherwise identical arguments give the same output on
  every input and length, whatever \<^verbatim>\<open>torch.istft\<close> computes; changing the stored
  sample rate of an InverseTransform changes no output.
\<close>

theorem sample_rate_unused:
  "AudioEncoder_init nfft nhop r1 nc = AudioEncoder_init nfft nhop r2 nc \<and>
   (\<forall>e1 e2. AudioEncoder_init nfft nhop r1 nc = Inr e1 \<and>
            AudioEncoder_init nfft nhop r2 nc = Inr e2 \<longrightarrow>
      AudioEncoder_forward e1 x = AudioEncoder_forward e2 x) \<and>
   (\<forall>d1 d2. TorchISTFT_init nfft nhop ctr r1 w = Inr d1 \<and>
            TorchISTFT_init nfft nhop ctr r2 w = Inr d2 \<longrightarrow>
      TorchISTFT_forward istft d1 X len = TorchISTFT_forward istft d2 X len) \<and>
   TorchISTFT_forward istft ((d::TorchISTFT)\<lparr>sample_rate := r1\<rparr>) X len
     = TorchISTFT_forward istft d X len"
  by (auto simp: AudioEncoder_init_def TorchISTFT_forward_def TorchISTFT_init_def
           split: option.splits sum.splits)

theorem sample_rate_unused_witness:
  "TorchISTFT_init 4 2 True 44100 None
      = Inr \<lparr>n_fft = 4, n_hop = 2, center = True, window = [0, 1 / 2, 1, 1 / 2],
             sample_rate = 44100\<rparr> \<and>
   TorchISTFT_init 4 2 True 16000 None
      = Inr \<lparr>n_fft = 4, n_hop = 2, center = True, window = [0, 1 / 2, 1, 1 / 2],
             sample_rate = 16000\<rparr> \<and>
   TorchISTFT_forward (\<lambda>Xc nfft hop win ctr normalized onesided len.
                         Inr \<lparr>shape = [1, 4], data = [1, 2, 3, 4]\<rparr>)
       \<lparr>n_fft = 4, n_hop = 2, center = True, window = [0, 1 / 2, 1, 1 / 2],
          sample_rate = 44100\<rparr>
       \<lparr>shape = [1, 1, 3, 1, 2], data = [1, 0, 2, 0, 3, 0]\<rparr> (Some 4)
   = TorchISTFT_forward (\<lambda>Xc nfft hop win ctr normalized onesided len.
                         Inr \<lparr>shape = [1, 4], data = [1, 2, 3, 4]\<rparr>)
       \<lparr>n_fft = 4, n_hop = 2, center = True, window = [0, 1 / 2, 1, 1 / 2],
          sample_rate = 16000\<rparr>
       \<lparr>shape = [1, 1, 3, 1, 2], data = [1, 0, 2, 0, 3, 0]\<rparr> (Some 4) \<and>
   AudioEncoder_init 4 2 44100 2
      = Inr \<lparr>stft = \<lparr>n_fft = 4, n_hop = 2, center = False, window = [0, 1 / 2, 1, 1 / 2]\<rparr>,
             complex_norm = \<lparr>mono = False\<rparr>\<rparr> \<and>
   AudioEncoder_init 4 2 16000 2
      = Inr \<lparr>stft = \<lparr>n_fft = 4, n_hop = 2, center = False, window = [0, 1 / 2, 1, 1 / 2]\<rparr>,
             complex_norm = \<lparr>mono = False\<rparr>\<rparr>"
  using sample_rate_unused
          [of 4 2 44100 2 16000 "\<lparr>shape = [1, 2, 4], data = [1, 2, 3, 4, 5, 6, 7, 8]\<rparr>"
              True None "\<lambda>Xc nfft hop win ctr normalized onesided len.
                 Inr \<lparr>shape = [1, 4], data = [1, 2, 3, 4]\<rparr>"
              "\<lparr>shape = [1, 1, 3, 1, 2], data = [1, 0, 2, 0, 3, 0]\<rparr>" "Some 4"]
  by (simp add: AudioEncoder_init_def TorchSTFT_init_def TorchISTFT_init_def hann_window_4)

section \<open>Lists laid out in rows\<close>

lemma length_concat_map_const:
  "(\<And>x. x \<in> set xs \<Longrightarrow> length (g x) = m) \<Longrightarrow> length (concat (map g xs)) = length xs * m"
  by (induction xs) simp_all

lemma nth_concat_map_const:
  "(\<And>x. x \<in> set xs \<Longrightarrow> length (g x) = m) \<Longrightarrow> b < length xs \<Longrightarrow> i < m \<Longrightarrow>
     concat (map g xs) ! (b * m + i) = g (xs ! b) ! i"
proof (induction xs arbitrary: b)
  case Nil
  then show ?case by simp
next
  case (Cons a xs)
  show ?case
  proof (cases b)
    case 0
    with Cons.prems show ?thesis by (simp add: nth_append)
  next
    case (Suc b')
    have "concat (map g xs) ! (b' * m + i) = g (xs ! b') ! i"
      using Cons.prems Suc by (intro Cons.IH) simp_all
    with Cons.prems Suc show ?thesis by (simp add: nth_append)
  qed
qed

lemma nth_concat_map_upt:
  assumes "b < n" "i < m"
  shows "concat (map (\<lambda>b. map (g b) [0..<m]) [0..<n]) ! (b * m + i) = g b i"
  using nth_concat_map_const [of "[0..<n]" "\<lambda>b. map (g b) [0..<m]" m b i] assms by simp

lemma length_pairs: "length (pairs xs) = length xs div 2"
  by (induction xs rule: pairs.induct) simp_all

lemma nth_pairs:
  "j < length xs div 2 \<Longrightarrow> pairs xs ! j = Complex (xs ! (2 * j)) (xs ! (2 * j + 1))"
proof (induction xs arbitrary: j rule: pairs.induct)
  case (1 a b xs)
  then show ?case by (cases j) simp_all
qed simp_all

lemma index_bound:
  fixes a :: nat
  assumes "a < A" "i < M"
  shows "a * M + i < A * M"
proof -
  have "a * M + i < a * M + M" using assms by simp
  also have "\<dots> = Suc a * M" by simp
  also have "\<dots> \<le> A * M" using assms by (intro mult_le_mono1) simp
  finally show ?thesis .
qed

lemma view_as_complex_wf:
  assumes "wf_tensor t" "view_as_complex t = Inr c"
  shows "wf_tensor c \<and> shape t = shape c @ [2] \<and> data c = pairs (data t)"
proof -
  from assms(2) have s: "shape t \<noteq> []" "last (shape t) = 2"
    and c: "c = \<lparr>shape = butlast (shape t), data = pairs (data t)\<rparr>"
    by (auto simp: view_as_complex_def split: if_splits)
  from s have st: "shape t = butlast (shape t) @ [2]"
    using append_butlast_last_id [of "shape t"] by simp
  have "prod_list (shape t) = prod_list (butlast (shape t)) * 2"
    by (subst st) simp
  with assms(1) c st show ?thesis by (simp add: wf_tensor_def length_pairs)
qed

section \<open>Spectral magnitude\<close>

lemma torch_abs_nonneg: "v \<in> set (data (torch_abs c)) \<Longrightarrow> 0 \<le> v"
  by (auto simp: torch_abs_def)

lemma torch_abs_wf: "wf_tensor c \<Longrightarrow> wf_tensor (torch_abs c)"
  by (simp add: wf_tensor_def torch_abs_def)

lemma torch_mean_dim1_ge_zero:
  assumes m: "torch_mean_dim1 t = Inr y" and wf: "wf_tensor t" and v: "v \<in> set (data y)"
    and ch: "0 < shape t ! 1"
    and nn: "\<And>u. u \<in> set (data t) \<Longrightarrow> 0 \<le> u"
  shows "ge_zero v"
proof -
  from m obtain outer c rest where s: "shape t = outer # c # rest"
    by (auto simp: torch_mean_dim1_def split: list.splits)
  define inner where "inner = prod_list rest"
  from ch s have c: "0 < c" by simp
  from m s c have d: "data y = concat (map (\<lambda>b. map (\<lambda>i.
        Fin ((\<Sum>ch\<leftarrow>[0..<c]. data t ! ((b * c + ch) * inner + i)) / real c))
        [0..<inner]) [0..<outer])"
    by (auto simp: torch_mean_dim1_def Let_def inner_def)
  from wf s have len: "length (data t) = outer * c * inner"
    by (simp add: wf_tensor_def inner_def mult.assoc)
  from v d obtain b i where b: "b < outer" and i: "i < inner"
    and veq: "v = Fin ((\<Sum>ch\<leftarrow>[0..<c]. data t ! ((b * c + ch) * inner + i)) / real c)"
    by auto
  have "0 \<le> data t ! ((b * c + ch) * inner + i)" if "ch < c" for ch
  proof -
    have "b * c + ch < outer * c" using b that by (rule index_bound)
    then have "(b * c + ch) * inner + i < outer * c * inner" using i by (rule index_bound)
    then show ?thesis using len nn by simp
  qed
  then have "0 \<le> (\<Sum>ch\<leftarrow>[0..<c]. data t ! ((b * c + ch) * inner + i))"
    by (intro sum_list_nonneg) auto
  then show ?thesis using veq by (simp add: ge_zero_def)
qed

lemma ComplexNorm_forward_example:
  "ComplexNorm_forward \<lparr>mono = True\<rparr> \<lparr>shape = [1, 2, 1, 1, 2], data = [1, 0, - 1, 0]\<rparr>
     = Inr \<lparr>shape = [1, 1, 1, 1], data = [Fin 1]\<rparr>"
  by (simp add: ComplexNorm_forward_def view_as_complex_def torch_abs_def torch_mean_dim1_def
      Let_def cmod_def upt_conv_Cons)

text \<open>
  C6, as the spec states it, fails: with the mono downmix, a complex spectrogram with
  an empty channel axis (shape \<open>(1, 0, 1, 1, 2)\<close>) is accepted, nothing is raised, and
  the one element of the output is NaN, which is not greater than or equal to 0.
\<close>

theorem ComplexNorm_forward_empty_channels_nan:
  "wf_tensor \<lparr>shape = [1, 0, 1, 1, 2], data = [] :: real list\<rparr> \<and>
   ComplexNorm_forward \<lparr>mono = True\<rparr> \<lparr>shape = [1, 0, 1, 1, 2], data = []\<rparr>
     = Inr \<lparr>shape = [1, 1, 1, 1], data = [NaN]\<rparr> \<and>
   \<not> list_all ge_zero (data \<lparr>shape = [1, 1, 1, 1], data = [NaN]\<rparr>)"
  by (simp add: wf_tensor_def ComplexNorm_forward_def view_as_complex_def torch_abs_def
      torch_mean_dim1_def Let_def ge_zero_def)

text \<open>
  C6, amended: for every complex spectrogram given to SpectralMagnitude without the
  mono downmix, and for every one given to it with the mono downmix whose channel
  axis (axis 1) is not empty, every element of the output is greater than or equal
  to 0.
\<close>

theorem ComplexNorm_forward_nonneg:
  assumes "wf_tensor spec" and "ComplexNorm_forward self spec = Inr y"
    and "mono self \<longrightarrow> 0 < shape spec ! 1"
  shows "\<forall>v\<in>set (data y). ge_zero v"
proof
  fix v assume v: "v \<in> set (data y)"
  from assms(2) obtain c where c: "view_as_complex spec = Inr c"
    and r: "(if mono self then torch_mean_dim1 (torch_abs c)
             else Inr (finite_tensor (torch_abs c))) = Inr y"
    by (auto simp: ComplexNorm_forward_def Let_def split: sum.splits)
  have sc: "shape spec = shape c @ [2]" and wfc: "wf_tensor (torch_abs c)"
    using view_as_complex_wf [OF assms(1) c] by (simp_all add: torch_abs_wf)
  show "ge_zero v"
  proof (cases "mono self")
    case True
    with r have m: "torch_mean_dim1 (torch_abs c) = Inr y" by simp
    then have "2 \<le> length (shape c)"
      by (auto simp: torch_mean_dim1_def torch_abs_def split: list.splits)
    with True assms(3) sc have "0 < shape (torch_abs c) ! 1"
      by (simp add: torch_abs_def nth_append)
    with m wfc v show ?thesis
      by (rule torch_mean_dim1_ge_zero) (rule torch_abs_nonneg)
  next
    case False
    with r have "y = finite_tensor (torch_abs c)" by simp
    with v show ?thesis by (auto simp: finite_tensor_def ge_zero_def dest: torch_abs_nonneg)
  qed
qed

theorem ComplexNorm_forward_nonneg_witness:
  "wf_tensor \<lparr>shape = [1, 2, 1, 1, 2], data = [1, 0, - 1, 0 :: real]\<rparr> \<and>
   ComplexNorm_forward \<lparr>mono = True\<rparr> \<lparr>shape = [1, 2, 1, 1, 2], data = [1, 0, - 1, 0]\<rparr>
     = Inr \<lparr>shape = [1, 1, 1, 1], data = [Fin 1]\<rparr> \<and>
   (0::nat) < shape \<lparr>shape = [1, 2, 1, 1, 2], data = [1, 0, - 1, 0 :: real]\<rparr> ! 1 \<and>
   list_all ge_zero (data \<lparr>shape = [1, 1, 1, 1], data = [Fin 1]\<rparr>)"
proof -
  have wf: "wf_tensor \<lparr>shape = [1, 2, 1, 1, 2], data = [1, 0, - 1, 0 :: real]\<rparr>"
    by (simp add: wf_tensor_def)
  have ch: "mono \<lparr>mono = True\<rparr> \<longrightarrow>
      0 < shape \<lparr>shape = [1, 2, 1, 1, 2], data = [1, 0, - 1, 0 :: real]\<rparr> ! 1"
    by simp
  have "list_all ge_zero (data \<lparr>shape = [1, 1, 1, 1], data = [Fin 1]\<rparr>)"
    using ComplexNorm_forward_nonneg [OF wf ComplexNorm_forward_example ch]
    unfolding list_all_iff .
  then show ?thesis using wf ComplexNorm_forward_example by simp
qed

lemma flat_index4: "flat_index [B, C, F, T] [b, c, f, t] = (b * C + c) * (F * T) + (f * T + t)"
  by (simp add: flat_index_def algebra_simps)

lemma flat_index5:
  "flat_index [B, C, F, T, 2] [b, c, f, t, r] = 2 * ((b * C + c) * (F * T) + (f * T + t)) + r"
  by (simp add: flat_index_def algebra_simps)

lemma ComplexNorm_mono_mean:
  assumes wf: "wf_tensor spec" and s: "shape spec = [B, C, F, T, 2]" and C: "0 < C"
    and b: "b < B" and f: "f < F" and t: "t < T"
  shows "\<exists>y. ComplexNorm_forward \<lparr>mono = True\<rparr> spec = Inr y \<and> shape y = [B, 1, F, T] \<and>
     wf_tensor y \<and>
     tget y [b, 0, f, t] =
       Fin ((\<Sum>c\<leftarrow>[0..<C]. sqrt ((tget spec [b, c, f, t, 0])\<^sup>2 + (tget spec [b, c, f, t, 1])\<^sup>2))
              / real C)"
proof -
  define inner where "inner = F * T"
  define mag where "mag = map cmod (pairs (data spec))"
  define y where "y = \<lparr>shape = [B, 1, F, T], data = concat (map (\<lambda>b. map (\<lambda>i.
        Fin ((\<Sum>ch\<leftarrow>[0..<C]. mag ! ((b * C + ch) * inner + i)) / real C))
        [0..<inner]) [0..<B])\<rparr>"
  have vc: "view_as_complex spec = Inr \<lparr>shape = [B, C, F, T], data = pairs (data spec)\<rparr>"
    using s by (simp add: view_as_complex_def)
  have fwd: "ComplexNorm_forward \<lparr>mono = True\<rparr> spec = Inr y"
    using C by (simp add: ComplexNorm_forward_def vc torch_abs_def torch_mean_dim1_def
        y_def mag_def inner_def Let_def)
  have len: "length (data spec) = 2 * (B * C * inner)"
    using wf s by (simp add: wf_tensor_def inner_def algebra_simps)
  have wfy: "wf_tensor y"
    by (simp add: wf_tensor_def y_def length_concat_map_const inner_def)
  have i: "f * T + t < inner"
    unfolding inner_def using f t by (rule index_bound)
  have "tget y [b, 0, f, t] = data y ! (b * inner + (f * T + t))"
    by (simp add: tget_def y_def flat_index4 inner_def)
  also have "\<dots> = Fin ((\<Sum>ch\<leftarrow>[0..<C]. mag ! ((b * C + ch) * inner + (f * T + t))) / real C)"
    unfolding y_def using nth_concat_map_upt [OF b i] by simp
  also have "(\<Sum>ch\<leftarrow>[0..<C]. mag ! ((b * C + ch) * inner + (f * T + t)))
      = (\<Sum>c\<leftarrow>[0..<C]. sqrt ((tget spec [b, c, f, t, 0])\<^sup>2 + (tget spec [b, c, f, t, 1])\<^sup>2))"
  proof (rule arg_cong [where f = sum_list], rule map_cong [OF refl])
    fix ch assume "ch \<in> set [0..<C]"
    then have ch: "ch < C" by simp
    define j where "j = (b * C + ch) * inner + (f * T + t)"
    have "b * C + ch < B * C" using b ch by (rule index_bound)
    then have j: "j < B * C * inner" unfolding j_def using i by (rule index_bound)
    then have j2: "j < length (data spec) div 2" using len by simp
    have "mag ! j = cmod (pairs (data spec) ! j)"
      using j2 by (simp add: mag_def length_pairs)
    also have "\<dots> = sqrt ((data spec ! (2 * j))\<^sup>2 + (data spec ! (2 * j + 1))\<^sup>2)"
      using j2 by (simp add: nth_pairs cmod_def)
    finally show "mag ! ((b * C + ch) * inner + (f * T + t))
        = sqrt ((tget spec [b, ch, f, t, 0])\<^sup>2 + (tget spec [b, ch, f, t, 1])\<^sup>2)"
      by (simp add: tget_def s flat_index5 j_def inner_def)
  qed
  finally show ?thesis using fwd wfy by (simp add: y_def)
qed

text \<open>
  C5: with \<open>mono\<close> set, SpectralMagnitude on a complex spectrogram of shape
  \<open>(B, C, F, T, 2)\<close> returns a tensor of shape \<open>(B, 1, F, T)\<close>, a single channel,
  whose element at \<open>(b, 0, f, t)\<close> is the arithmetic mean over the channel axis
  (axis 1) of the magnitudes \<open>sqrt (real\<^sup>2 + imag\<^sup>2)\<close> of the bins \<open>(b, c, f, t)\<close>;
  for two channels with magnitudes \<open>m1\<close> and \<open>m2\<close> this is \<open>(m1 + m2) / 2\<close>. For
  two channels holding \<open>1\<close> and \<open>-1\<close> at a bin the output is 1, the mean of the
  magnitudes, where the magnitude of the averaged complex values would be 0.
\<close>

theorem ComplexNorm_mono_mean_of_magnitudes:
  assumes wf: "wf_tensor spec" and s: "shape spec = [B, C, F, T, 2]" and C: "0 < C"
    and b: "b < B" and f: "f < F" and t: "t < T"
  shows "\<exists>y. ComplexNorm_forward \<lparr>mono = True\<rparr> spec = Inr y \<and> shape y = [B, 1, F, T] \<and>
     wf_tensor y \<and>
     tget y [b, 0, f, t] =
       Fin ((\<Sum>c\<leftarrow>[0..<C]. sqrt ((tget spec [b, c, f, t, 0])\<^sup>2 + (tget spec [b, c, f, t, 1])\<^sup>2))
              / real C) \<and>
     (C = 2 \<longrightarrow> tget y [b, 0, f, t] =
        Fin ((sqrt ((tget spec [b, 0, f, t, 0])\<^sup>2 + (tget spec [b, 0, f, t, 1])\<^sup>2)
              + sqrt ((tget spec [b, 1, f, t, 0])\<^sup>2 + (tget spec [b, 1, f, t, 1])\<^sup>2)) / 2))"
proof -
  from ComplexNorm_mono_mean [OF assms] obtain y
    where y: "ComplexNorm_forward \<lparr>mono = True\<rparr> spec = Inr y"
    "shape y = [B, 1, F, T]" "wf_tensor y"
    "tget y [b, 0, f, t] =
       Fin ((\<Sum>c\<leftarrow>[0..<C]. sqrt ((tget spec [b, c, f, t, 0])\<^sup>2 + (tget spec [b, c, f, t, 1])\<^sup>2))
              / real C)"
    by blast
  have "[0..<2] = [0, 1]" by (simp add: upt_conv_Cons)
  with y(4) have "C = 2 \<longrightarrow> tget y [b, 0, f, t] =
        Fin ((sqrt ((tget spec [b, 0, f, t, 0])\<^sup>2 + (tget spec [b, 0, f, t, 1])\<^sup>2)
              + sqrt ((tget spec [b, 1, f, t, 0])\<^sup>2 + (tget spec [b, 1, f, t, 1])\<^sup>2)) / 2)"
    by simp
  with y show ?thesis by blast
qed

theorem ComplexNorm_mono_mean_of_magnitudes_witness:
  "wf_tensor \<lparr>shape = [1, 2, 1, 1, 2], data = [1, 0, - 1, 0 :: real]\<rparr> \<and>
   (0::nat) < 2 \<and> (0::nat) < 1 \<and>
   (\<exists>y. ComplexNorm_forward \<lparr>mono = True\<rparr> \<lparr>shape = [1, 2, 1, 1, 2], data = [1, 0, - 1, 0]\<rparr>
          = Inr y \<and> shape y = [1, 1, 1, 1] \<and> tget y [0, 0, 0, 0] = Fin 1) \<and>
   cmod ((Complex 1 0 + Complex (- 1) 0) / 2) = 0"
proof -
  let ?spec = "\<lparr>shape = [1, 2, 1, 1, 2], data = [1, 0, - 1, 0 :: real]\<rparr>"
  have wf: "wf_tensor ?spec" by (simp add: wf_tensor_def)
  have s: "shape ?spec = [1, 2, 1, 1, 2]" by simp
  have v: "tget ?spec [0, 0, 0, 0, 0] = 1" "tget ?spec [0, 0, 0, 0, 1] = 0"
    "tget ?spec [0, 1, 0, 0, 0] = - 1" "tget ?spec [0, 1, 0, 0, 1] = 0"
    by (simp_all add: tget_def flat_index_def)
  from ComplexNorm_mono_mean_of_magnitudes [OF wf s, of 0 0 0]
  obtain y where "ComplexNorm_forward \<lparr>mono = True\<rparr> ?spec = Inr y" "shape y = [1, 1, 1, 1]"
    "tget y [0, 0, 0, 0] =
        Fin ((sqrt ((tget ?spec [0, 0, 0, 0, 0])\<^sup>2 + (tget ?spec [0, 0, 0, 0, 1])\<^sup>2)
              + sqrt ((tget ?spec [0, 1, 0, 0, 0])\<^sup>2 + (tget ?spec [0, 1, 0, 0, 1])\<^sup>2)) / 2)"
    by auto
  then have "\<exists>y. ComplexNorm_forward \<lparr>mono = True\<rparr> ?spec = Inr y \<and> shape y = [1, 1, 1, 1] \<and>
      tget y [0, 0, 0, 0] = Fin 1"
    unfolding v by auto
  moreover have "cmod ((Complex 1 0 + Complex (- 1) 0) / 2) = 0"
    by (simp add: complex_eq_iff)
  ultimately show ?thesis using wf by simp
qed

section \<open>Shape of the forward transform\<close>

lemma length_reflect_pad:
  "p = 0 \<or> p < length xs \<Longrightarrow> length (reflect_pad p xs) = length xs + 2 * p"
  by (auto simp: reflect_pad_def)

lemma length_stft_frames:
  "length (stft_frames sig n hop win) = 1 + (length sig - n) div hop"
  by (simp add: stft_frames_def)

lemma length_row:
  assumes "length xs = batch * len0" "r < batch"
  shows "length (take len0 (drop (r * len0) xs)) = len0"
proof -
  have "Suc r * len0 \<le> batch * len0" using assms(2) by (intro mult_le_mono1) simp
  then show ?thesis using assms(1) by simp
qed

lemma stft_2d_shape:
  assumes nfft: "0 < nfft" and hop: "0 < hop" and win: "length win = nat nfft"
    and S: "if ctr then nat nfft div 2 < len0 else nat nfft \<le> len0"
    and xs: "length xs = batch * len0"
  shows "\<exists>y. stft_2d batch len0 xs nfft hop win ctr = Inr y \<and> wf_tensor y \<and>
     shape y = [batch, nat nfft div 2 + 1,
                1 + ((if ctr then len0 + 2 * (nat nfft div 2) else len0) - nat nfft) div nat hop]"
proof -
  define n where "n = nat nfft"
  define p where "p = (if ctr then n div 2 else 0)"
  define len where "len = len0 + 2 * p"
  define frames where "frames = 1 + (len - n) div nat hop"
  define rows where
    "rows = map (\<lambda>r. reflect_pad p (take len0 (drop (r * len0) xs))) [0..<batch]"
  define y where "y = \<lparr>shape = [batch, n div 2 + 1, frames],
      data = concat (map (\<lambda>row. concat (map (\<lambda>f. map (\<lambda>fr. fr ! f)
                (stft_frames row n (nat hop) win)) [0..<n div 2 + 1])) rows)\<rparr>"
  have p: "p = 0 \<or> p < len0" using S by (auto simp: p_def n_def)
  have "n \<le> len" using S by (auto simp: len_def p_def n_def)
  then have eq: "stft_2d batch len0 xs nfft hop win ctr = Inr y"
    using nfft hop win S
    by (auto simp: stft_2d_def Let_def y_def rows_def frames_def len_def p_def n_def)
  have row: "length row = len" if "row \<in> set rows" for row
  proof -
    from that obtain r where r: "r < batch"
      and "row = reflect_pad p (take len0 (drop (r * len0) xs))"
      by (auto simp: rows_def)
    then show ?thesis using p length_row [OF xs r] by (simp add: length_reflect_pad len_def)
  qed
  have block: "length (concat (map (\<lambda>f. map (\<lambda>fr. fr ! f) (stft_frames row n (nat hop) win))
        [0..<n div 2 + 1])) = (n div 2 + 1) * frames" if "row \<in> set rows" for row
    using row [OF that] by (simp add: length_concat_map_const length_stft_frames frames_def)
  have "length (data y) = length rows * ((n div 2 + 1) * frames)"
    unfolding y_def using block by (simp add: length_concat_map_const)
  then have "wf_tensor y" by (simp add: wf_tensor_def y_def rows_def)
  moreover have "shape y = [batch, nat nfft div 2 + 1,
                1 + ((if ctr then len0 + 2 * (nat nfft div 2) else len0) - nat nfft) div nat hop]"
    by (simp add: y_def frames_def len_def p_def n_def)
  ultimately show ?thesis using eq by blast
qed

lemma TorchSTFT_forward_shape:
  assumes wf: "wf_tensor x" and sx: "shape x = lead @ [S]"
    and nfft: "0 < n_fft self" and hop: "0 < n_hop self"
    and win: "length (window self) = nat (n_fft self)"
    and S: "if center self then nat (n_fft self) div 2 < S else nat (n_fft self) \<le> S"
  shows "\<exists>y. TorchSTFT_forward self x = Inr y \<and> wf_tensor y \<and>
     shape y = lead @ [nat (n_fft self) div 2 + 1,
                1 + ((if center self then S + 2 * (nat (n_fft self) div 2) else S)
                      - nat (n_fft self)) div nat (n_hop self), 2]"
proof -
  define batch where "batch = prod_list lead"
  define bins where "bins = nat (n_fft self) div 2 + 1"
  define frames where
    "frames = 1 + ((if center self then S + 2 * (nat (n_fft self) div 2) else S)
                     - nat (n_fft self)) div nat (n_hop self)"
  have Spos: "0 < S" using S nfft by (auto split: if_splits)
  have len: "length (data x) = batch * S"
    using wf sx by (simp add: wf_tensor_def batch_def)
  have l: "shape x \<noteq> []" "last (shape x) = S" "butlast (shape x) = lead"
    using sx by simp_all
  have v: "view_infer x [S] = Inr \<lparr>shape = [batch, S], data = data x\<rparr>"
    using Spos sx by (simp add: view_infer_def batch_def)
  from stft_2d_shape [OF nfft hop win S len]
  obtain c where c: "stft_2d batch S (data x) (n_fft self) (n_hop self) (window self)
                       (center self) = Inr c"
    and wfc: "wf_tensor c" and sc: "shape c = [batch, bins, frames]"
    unfolding bins_def frames_def by blast
  have t: "torch_stft \<lparr>shape = [batch, S], data = data x\<rparr> (n_fft self) (n_hop self)
             (window self) (center self) = Inr c"
    using c by (simp add: torch_stft_def)
  define y where "y = \<lparr>shape = lead @ [bins, frames, 2],
                        data = concat (map (\<lambda>z. [Re z, Im z]) (data c))\<rparr>"
  have "TorchSTFT_forward self x
      = view (view_as_real c)
          (lead @ drop (length (shape (view_as_real c)) - 3) (shape (view_as_real c)))"
    by (simp add: TorchSTFT_forward_def l v t Let_def)
  also have "\<dots> = Inr y"
    by (simp add: view_def view_as_real_def sc y_def batch_def)
  finally have "TorchSTFT_forward self x = Inr y" .
  moreover have "wf_tensor y"
    using wfc sc by (simp add: wf_tensor_def y_def length_concat_map_const batch_def)
  moreover have "shape y = lead @ [bins, frames, 2]"
    by (simp add: y_def)
  ultimately show ?thesis unfolding bins_def frames_def by blast
qed

text \<open>
  C2, as the spec states it, fails for odd \<open>n_fft\<close> with \<open>center\<close>: for
  \<open>n_fft = 3\<close>, \<open>n_hop = 1\<close> and \<open>S = 3\<close> the output has 3 frames, where
  \<open>1 + floor ((S + n_fft - n_fft) / n_hop)\<close> is 4.
\<close>

theorem TorchSTFT_forward_odd_n_fft_frames:
  "map_sum id shape
     (TorchSTFT_forward \<lparr>n_fft = 3, n_hop = 1, center = True, window = [0, 3 / 4, 3 / 4]\<rparr>
        \<lparr>shape = [1, 1, 3], data = [1, 2, 3]\<rparr>) = Inr [1, 1, 2, 3, 2] \<and>
   (3::nat) \<noteq> 1 + (3 + 3 - 3) div 1"
proof -
  let ?x = "\<lparr>shape = [1, 1, 3], data = [1, 2, 3 :: real]\<rparr>"
  let ?self = "\<lparr>n_fft = 3, n_hop = 1, center = True, window = [0, 3 / 4, 3 / 4]\<rparr>"
  have "wf_tensor ?x" by (simp add: wf_tensor_def)
  moreover have "shape ?x = [1, 1] @ [3]" by simp
  ultimately obtain y where y: "TorchSTFT_forward ?self ?x = Inr y"
    and "shape y = [1, 1] @ [nat (n_fft ?self) div 2 + 1,
                1 + ((if center ?self then 3 + 2 * (nat (n_fft ?self) div 2) else 3)
                      - nat (n_fft ?self)) div nat (n_hop ?self), 2]"
    using TorchSTFT_forward_shape [of ?x "[1, 1]" 3 ?self] by auto
  then have "shape y = [1, 1, 2, 3, 2]" by simp
  with y show ?thesis by simp
qed

text \<open>
  C2, amended: for every configuration with \<open>n_fft > 0\<close>, \<open>n_hop > 0\<close> and a window
  of length \<open>n_fft\<close>, and every input whose last axis has length \<open>S\<close>, with
  \<open>S \<ge> n_fft\<close> when \<open>center\<close> is false and \<open>S > floor (n_fft / 2)\<close> when it is
  true, ForwardTransform returns a tensor with the input's leading axes followed by
  a frequency axis of \<open>floor (n_fft / 2) + 1\<close> entries, a frame axis of
  \<open>1 + floor ((S_padded - n_fft) / n_hop)\<close> entries and an axis of size 2, where
  \<open>S_padded = S + 2 * floor (n_fft / 2)\<close> when \<open>center\<close> is true (this is
  \<open>S + n_fft\<close> for even \<open>n_fft\<close>) and \<open>S_padded = S\<close> otherwise.
\<close>

theorem TorchSTFT_forward_frames:
  assumes "wf_tensor x" and "shape x = lead @ [S]"
    and "0 < n_fft self" and "0 < n_hop self"
    and "length (window self) = nat (n_fft self)"
    and "if center self then nat (n_fft self) div 2 < S else nat (n_fft self) \<le> S"
  shows "\<exists>y. TorchSTFT_forward self x = Inr y \<and> wf_tensor y \<and>
     shape y = lead @ [nat (n_fft self) div 2 + 1,
                1 + ((if center self then S + 2 * (nat (n_fft self) div 2) else S)
                      - nat (n_fft self)) div nat (n_hop self), 2]"
  using assms by (rule TorchSTFT_forward_shape)

theorem TorchSTFT_forward_frames_witness:
  "wf_tensor \<lparr>shape = [1, 1, 6], data = [1, 2, 3, 4, 5, 6 :: real]\<rparr> \<and>
   (\<exists>y. TorchSTFT_forward \<lparr>n_fft = 4, n_hop = 2, center = False, window = [0, 1 / 2, 1, 1 / 2]\<rparr>
          \<lparr>shape = [1, 1, 6], data = [1, 2, 3, 4, 5, 6]\<rparr> = Inr y \<and>
        shape y = [1, 1, 3, 2, 2])"
proof -
  let ?x = "\<lparr>shape = [1, 1, 6], data = [1, 2, 3, 4, 5, 6 :: real]\<rparr>"
  let ?self = "\<lparr>n_fft = 4, n_hop = 2, center = False, window = [0, 1 / 2, 1, 1 / 2]\<rparr>"
  have wf: "wf_tensor ?x" by (simp add: wf_tensor_def)
  moreover have "shape ?x = [1, 1] @ [6]" by simp
  ultimately obtain y where y: "TorchSTFT_forward ?self ?x = Inr y"
    and "shape y = [1, 1] @ [nat (n_fft ?self) div 2 + 1,
                1 + ((if center ?self then 6 + 2 * (nat (n_fft ?self) div 2) else 6)
                      - nat (n_fft ?self)) div nat (n_hop ?self), 2]"
    using TorchSTFT_forward_frames [of ?x "[1, 1]" 6 ?self] by auto
  then have "shape y = [1, 1, 3, 2, 2]" by simp
  with y wf show ?thesis by blast
qed

end
